theory Spec2Isabelle
  imports Main "HOL-Library.Word"
begin

section \<open>fldd: the library dependency lister of firejail (src/fldd/main.c)\<close>

text \<open>
  The program maps an ELF file, walks its program headers, section headers and dynamic
  section, and collects the interpreter path and the resolved NEEDED libraries in the
  list \<open>libs\<close>, searching the directories of the list \<open>lib_paths\<close>.

  Conventions of the embedding.
  \<^item> The build is the \<open>__LP64__\<close> one: the structures are \<open>Elf64_Ehdr\<close> (64 bytes),
    \<open>Elf64_Phdr\<close> (56 bytes), \<open>Elf64_Shdr\<close> (64 bytes) and \<open>Elf64_Dyn\<close> (16 bytes),
    fields little-endian, with the constants of \<open>elf.h\<close>.
  \<^item> A mapping is made of whole pages: the bytes of the file, followed by zero bytes up
    to the next multiple of the page size of the platform (4096 on x86-64). A pointer
    into the mapping is its 64-bit offset from \<open>base\<close>, so \<open>base\<close> is 0 and \<open>end\<close>,
    which is \<open>base + st_size\<close>, is the file size; pointer arithmetic is arithmetic of
    \<open>64 word\<close> and wraps as the machine's does.
  \<^item> A read past the file and inside its last page gives the zero bytes of the page, and
    the run goes on. A read of a byte outside the mapped pages ends the process (the
    signal of the kernel): the model stops there with \<open>BadAccess\<close> and the offset of
    the first such byte. With a page size of 1 there is no byte between the file and the
    end of the mapping, and the model stops at the first read of a byte that is not a
    byte of the file.
  \<^item> The two linked lists are lists, head first. \<open>malloc\<close>, \<open>strdup\<close> and
    \<open>asprintf\<close> are taken to succeed (their failure ends the process in \<open>errExit\<close>).
  \<^item> The recursion \<open>copy_libs_for_exe\<close> / \<open>copy_libs_for_lib\<close> is bounded by a
    fuel argument, the depth of the call stack; running out of it is \<open>OutOfFuel\<close>.
\<close>

subsection \<open>The mapped image\<close>

datatype error = OutOfFuel | BadAccess "64 word"

text \<open>The content of a file, and a private mapping of it: the bytes of its pages and
  the size of the file.\<close>

type_synonym image = "char list"

record mapping =
  pages :: "char list"
  st_size :: nat

definition rd_bytes :: "mapping \<Rightarrow> 64 word \<Rightarrow> nat \<Rightarrow> error + char list" where
  "rd_bytes img off n =
     (if unat off + n \<le> length (pages img) then Inr (take n (drop (unat off) (pages img)))
      else Inl (BadAccess (if unat off < length (pages img) then of_nat (length (pages img))
                           else off)))"

fun le_val :: "char list \<Rightarrow> nat" where
  "le_val [] = 0"
| "le_val (c # cs) = of_char c + 256 * le_val cs"

definition rd8 :: "mapping \<Rightarrow> 64 word \<Rightarrow> error + char" where
  "rd8 img off =
     (if unat off < length (pages img) then Inr (pages img ! unat off)
      else Inl (BadAccess off))"

definition rd16 :: "mapping \<Rightarrow> 64 word \<Rightarrow> error + 16 word" where
  "rd16 img off = map_sum id (\<lambda>bs. of_nat (le_val bs)) (rd_bytes img off 2)"

definition rd32 :: "mapping \<Rightarrow> 64 word \<Rightarrow> error + 32 word" where
  "rd32 img off = map_sum id (\<lambda>bs. of_nat (le_val bs)) (rd_bytes img off 4)"

definition rd64 :: "mapping \<Rightarrow> 64 word \<Rightarrow> error + 64 word" where
  "rd64 img off = map_sum id (\<lambda>bs. of_nat (le_val bs)) (rd_bytes img off 8)"

text \<open>The store of a 16-bit value (only \<open>e_phnum--\<close> writes to the private mapping).\<close>

definition wr16 :: "mapping \<Rightarrow> 64 word \<Rightarrow> 16 word \<Rightarrow> mapping" where
  "wr16 img off v =
     img\<lparr>pages := ((pages img)[unat off := char_of (unat v mod 256)])
                     [unat off + 1 := char_of (unat v div 256)]\<rparr>"

text \<open>A C string: the bytes from the pointer up to the first NUL, in the file or in the
  zero bytes after it.\<close>

fun cstr_from :: "char list \<Rightarrow> string option" where
  "cstr_from [] = None"
| "cstr_from (c # cs) =
     (if c = CHR 0x00 then Some [] else map_option ((#) c) (cstr_from cs))"

definition cstr :: "mapping \<Rightarrow> 64 word \<Rightarrow> error + string" where
  "cstr img off =
     (case cstr_from (drop (unat off) (pages img)) of
        Some s \<Rightarrow> Inr s
      | None \<Rightarrow> Inl (BadAccess (if unat off < length (pages img) then of_nat (length (pages img))
                                else off)))"

text \<open>\<open>end = base + s.st_size\<close>.\<close>

definition image_end :: "mapping \<Rightarrow> 64 word" where
  "image_end img = of_nat (st_size img)"

subsection \<open>Constants of elf.h and offsets of the Elf64 structures\<close>

definition ELFMAG :: string where "ELFMAG = [CHR 0x7F, CHR ''E'', CHR ''L'', CHR ''F'']"

definition PT_INTERP :: "32 word" where "PT_INTERP = 3"
definition SHT_NULL :: "32 word" where "SHT_NULL = 0"
definition SHT_STRTAB :: "32 word" where "SHT_STRTAB = 3"
definition SHT_DYNAMIC :: "32 word" where "SHT_DYNAMIC = 6"
definition DT_NEEDED :: "64 word" where "DT_NEEDED = 1"
definition DT_RPATH :: "64 word" where "DT_RPATH = 15"
definition DT_RUNPATH :: "64 word" where "DT_RUNPATH = 29"

definition sizeof_Ehdr :: "64 word" where "sizeof_Ehdr = 64"
definition sizeof_Phdr :: "64 word" where "sizeof_Phdr = 56"
definition sizeof_Shdr :: "64 word" where "sizeof_Shdr = 64"
definition sizeof_Dyn :: "64 word" where "sizeof_Dyn = 16"

definition e_shoff :: "64 word" where "e_shoff = 40"
definition e_phnum :: "64 word" where "e_phnum = 56"
definition e_shnum :: "64 word" where "e_shnum = 60"
definition p_type :: "64 word" where "p_type = 0"
definition p_offset :: "64 word" where "p_offset = 8"
definition sh_type :: "64 word" where "sh_type = 4"
definition sh_offset :: "64 word" where "sh_offset = 24"
definition sh_size :: "64 word" where "sh_size = 32"
definition d_tag :: "64 word" where "d_tag = 0"
definition d_ptr :: "64 word" where "d_ptr = 8"

subsection \<open>Storage: the two linked lists\<close>

fun storage_find :: "string list \<Rightarrow> string \<Rightarrow> bool" where
  "storage_find [] name = False"
| "storage_find (p # ptr) name = (if p = name then True else storage_find ptr name)"

definition storage_add :: "string list \<Rightarrow> string \<Rightarrow> string list" where
  "storage_add head name = (if storage_find head name then head else name # head)"

fun storage_print :: "string list \<Rightarrow> string" where
  "storage_print [] = []"
| "storage_print (p # ptr) = p @ [CHR 0x0A] @ storage_print ptr"

subsection \<open>Process state\<close>

record state =
  libs :: "string list"
  lib_paths :: "string list"
  arg_quiet :: bool
  stderr :: "string list"

text \<open>A line for the diagnostic stream, written unless \<open>arg_quiet\<close> is set.\<close>

definition warn :: "string \<Rightarrow> state \<Rightarrow> state" where
  "warn msg st = (if arg_quiet st then st else st\<lparr>stderr := stderr st @ [msg]\<rparr>)"

text \<open>\<open>perror\<close> is not guarded by \<open>arg_quiet\<close>; libc appends the text of \<open>errno\<close>.\<close>

definition perror :: "string \<Rightarrow> state \<Rightarrow> state" where
  "perror msg st = st\<lparr>stderr := stderr st @ [msg]\<rparr>"

definition ptr_ok ::
  "64 word \<Rightarrow> 64 word \<Rightarrow> 64 word \<Rightarrow> string \<Rightarrow> string \<Rightarrow> state \<Rightarrow> bool \<times> state" where
  "ptr_ok ptr base end' name exe st =
     (let r = (base \<le> ptr \<and> ptr \<le> end')
      in (r, if r then st
             else warn (''Warning: fldd: bad pointer '' @ name @ '' for '' @ exe) st))"

subsection \<open>The file system\<close>

text \<open>
  A path that \<open>access(path, R_OK)\<close> accepts and \<open>open(path, O_RDONLY)\<close> opens is
  mapped to its node. \<open>mmap\<close> fails on a directory and on a length of 0; otherwise it
  maps the pages that hold the file, \<open>pg\<close> being the page size: the bytes of the file
  and, after them, \<open>slack pg bs\<close> zero bytes up to the end of the last page.
\<close>

datatype node = Regular image | Directory

type_synonym fs = "string \<Rightarrow> node option"

definition access_ok :: "fs \<Rightarrow> string \<Rightarrow> bool" where
  "access_ok files path = (files path \<noteq> None)"

definition slack :: "nat \<Rightarrow> image \<Rightarrow> nat" where
  "slack pg bs = (pg - length bs mod pg) mod pg"

definition map_pages :: "nat \<Rightarrow> image \<Rightarrow> mapping" where
  "map_pages pg bs = \<lparr>pages = bs @ replicate (slack pg bs) (CHR 0x00), st_size = length bs\<rparr>"

fun mmap :: "nat \<Rightarrow> node \<Rightarrow> mapping option" where
  "mmap pg Directory = None"
| "mmap pg (Regular bs) = (if bs = [] then None else Some (map_pages pg bs))"


subsection \<open>The walk over one mapped file\<close>

text \<open>\<open>strncmp(e_ident, ELFMAG, SELFMAG)\<close>: byte by byte, up to the first difference.\<close>

fun magic_ok :: "mapping \<Rightarrow> 64 word \<Rightarrow> string \<Rightarrow> error + bool" where
  "magic_ok img off [] = Inr True"
| "magic_ok img off (m # ms) =
     (case rd8 img off of
        Inl e \<Rightarrow> Inl e
      | Inr c \<Rightarrow> if c = m then magic_ok img (off + 1) ms else Inr False)"

text \<open>A 16-bit value stored at a readable place is the value read back from it.\<close>

lemma le_val_pair:
  "le_val [char_of (unat v), char_of (unat v div 256)] = unat v" for v :: "16 word"
proof -
  have "unat v < 65536" using unsigned_less [of v, where 'a=nat] by simp
  then have "unat v div 256 < 256" by simp
  then show ?thesis by (simp add: of_char_of)
qed

lemma length_wr16 [simp]: "length (pages (wr16 img off v)) = length (pages img)"
  by (simp add: wr16_def)

lemma rd16_wr16:
  assumes "rd16 img off = Inr n"
  shows "rd16 (wr16 img off v) off = Inr v"
proof -
  from assms have len: "unat off + 2 \<le> length (pages img)"
    by (auto simp: rd16_def rd_bytes_def split: if_splits)
  have "take 2 (drop (unat off) (pages (wr16 img off v))) =
        [char_of (unat v mod 256), char_of (unat v div 256)]"
    using len
    by (auto simp: wr16_def list_eq_iff_nth_eq nth_list_update less_Suc_eq numeral_2_eq_2)
  then show ?thesis using len
    by (simp add: rd16_def rd_bytes_def le_val_pair del: le_val.simps)
qed

text \<open>
  The program header loop. \<open>ebuf->e_phnum-- > 0\<close> reads the count from the header and
  stores it back decremented on every test. The result is the image as the loop left
  it, the state, and whether \<open>goto close\<close> was taken.
\<close>

definition phnum_of :: "mapping \<Rightarrow> nat" where
  "phnum_of img = (case rd16 img e_phnum of Inl e \<Rightarrow> 0 | Inr n \<Rightarrow> unat n)"

function ph_loop ::
  "string \<Rightarrow> mapping \<Rightarrow> 64 word \<Rightarrow> state \<Rightarrow> error + (mapping \<times> state \<times> bool)" where
  "ph_loop exe img pbuf st =
     (case rd16 img e_phnum of
        Inl e \<Rightarrow> Inl e
      | Inr n \<Rightarrow>
          let img' = wr16 img e_phnum (n - 1) in
          if n = 0 then Inr (img', st, False)
          else
            let (ok, st1) = ptr_ok pbuf 0 (image_end img') ''pbuf'' exe st in
            if \<not> ok then Inr (img', st1, False)
            else
              (case rd32 img' (pbuf + p_type) of
                 Inl e \<Rightarrow> Inl e
               | Inr ty \<Rightarrow>
                   if ty = PT_INTERP then
                     (case rd64 img' (pbuf + p_offset) of
                        Inl e \<Rightarrow> Inl e
                      | Inr off \<Rightarrow>
                          let (ok2, st2) =
                                ptr_ok off 0 (image_end img') ''base + pbuf->p_offset'' exe st1 in
                          if \<not> ok2 then Inr (img', st2, True)
                          else
                            (case cstr img' off of
                               Inl e \<Rightarrow> Inl e
                             | Inr s \<Rightarrow>
                                 ph_loop exe img' (pbuf + sizeof_Phdr)
                                   (st2\<lparr>libs := storage_add (libs st2) s\<rparr>)))
                   else ph_loop exe img' (pbuf + sizeof_Phdr) st1))"
  by pat_completeness auto
termination
proof (relation "measure (\<lambda>(exe, img, pbuf, st). phnum_of img)")
  show "wf (measure (\<lambda>(exe, img, pbuf, st). phnum_of img))" by simp
next
  fix exe :: string and img :: mapping and pbuf :: "64 word" and st :: state and n :: "16 word"
    and img' x y xa z ya xb
  assume "rd16 img e_phnum = Inr n" "img' = wr16 img e_phnum (n - 1)" "n \<noteq> 0"
  then have "phnum_of img' < phnum_of img"
    by (simp add: phnum_of_def rd16_wr16 unat_minus_one unat_gt_0)
  then show "((exe, img', pbuf + sizeof_Phdr, ya\<lparr>libs := storage_add (libs ya) xb\<rparr>),
              exe, img, pbuf, st) \<in> measure (\<lambda>(exe, img, pbuf, st). phnum_of img)"
    by simp
next
  fix exe :: string and img :: mapping and pbuf :: "64 word" and st :: state and n :: "16 word"
    and img' x y xa
  assume "rd16 img e_phnum = Inr n" "img' = wr16 img e_phnum (n - 1)" "n \<noteq> 0"
  then have "phnum_of img' < phnum_of img"
    by (simp add: phnum_of_def rd16_wr16 unat_minus_one unat_gt_0)
  then show "((exe, img', pbuf + sizeof_Phdr, y), exe, img, pbuf, st)
             \<in> measure (\<lambda>(exe, img, pbuf, st). phnum_of img)"
    by simp
qed

text \<open>
  The first section loop looks for a string table. It leaves \<open>sbuf\<close> on the header
  it stopped at: \<open>Found sbuf strbase\<close> after the \<open>break\<close>, \<open>NotFound\<close> when
  \<open>strbase\<close> is still \<open>NULL\<close>, \<open>Close\<close> for \<open>goto close\<close>.
\<close>

datatype strtab = Found "64 word" "64 word" | NotFound | Close

fun strtab_loop ::
  "string \<Rightarrow> mapping \<Rightarrow> nat \<Rightarrow> 64 word \<Rightarrow> state \<Rightarrow> error + (strtab \<times> state)" where
  "strtab_loop exe img 0 sbuf st = Inr (NotFound, st)"
| "strtab_loop exe img (Suc sections) sbuf st =
     (let (ok, st1) = ptr_ok sbuf 0 (image_end img) ''sbuf'' exe st in
      if \<not> ok then Inr (NotFound, st1)
      else
        (case rd32 img (sbuf + sh_type) of
           Inl e \<Rightarrow> Inl e
         | Inr ty \<Rightarrow>
             if ty = SHT_STRTAB then
               (case rd64 img (sbuf + sh_offset) of
                  Inl e \<Rightarrow> Inl e
                | Inr off \<Rightarrow>
                    let (ok2, st2) = ptr_ok off 0 (image_end img) ''strbase'' exe st1 in
                    if \<not> ok2 then Inr (Close, st2) else Inr (Found sbuf off, st2))
             else strtab_loop exe img sections (sbuf + sizeof_Shdr) st1))"

text \<open>
  The two loops over the entries of a dynamic section; the flag of the result is
  \<open>goto close\<close>. \<open>size\<close> is the \<open>unsigned long\<close> of the source.
\<close>

function rpath_loop ::
  "string \<Rightarrow> mapping \<Rightarrow> 64 word \<Rightarrow> 64 word \<Rightarrow> 64 word \<Rightarrow> state \<Rightarrow> error + (state \<times> bool)" where
  "rpath_loop exe img strbase size' dbuf st =
     (if size' < sizeof_Dyn then Inr (st, False)
      else
        let (ok, st1) = ptr_ok dbuf 0 (image_end img) ''dbuf'' exe st in
        if \<not> ok then Inr (st1, False)
        else
          (case rd64 img (dbuf + d_tag) of
             Inl e \<Rightarrow> Inl e
           | Inr tag \<Rightarrow>
               if tag = DT_RPATH \<or> tag = DT_RUNPATH then
                 (case rd64 img (dbuf + d_ptr) of
                    Inl e \<Rightarrow> Inl e
                  | Inr v \<Rightarrow>
                      let searchpath = strbase + v;
                          (ok2, st2) = ptr_ok searchpath 0 (image_end img) ''searchpath'' exe st1 in
                      if \<not> ok2 then Inr (st2, True)
                      else
                        (case cstr img searchpath of
                           Inl e \<Rightarrow> Inl e
                         | Inr s \<Rightarrow>
                             rpath_loop exe img strbase (size' - sizeof_Dyn) (dbuf + sizeof_Dyn)
                               (st2\<lparr>lib_paths := storage_add (lib_paths st2) s\<rparr>)))
               else rpath_loop exe img strbase (size' - sizeof_Dyn) (dbuf + sizeof_Dyn) st1))"
  by pat_completeness auto
termination
  by (relation "measure (\<lambda>(exe, img, strbase, size', dbuf, st). unat size')")
     (auto simp: sizeof_Dyn_def unat_sub word_le_nat_alt not_less)

text \<open>
  In the second loop \<open>lib_fn\<close> stands for \<open>copy_libs_for_lib\<close>. The name is read by
  \<open>asprintf\<close> against the first registered directory, and the registry is never empty
  once \<open>lib_paths_init\<close> has run; the model reads it before the call.
\<close>

function needed_loop ::
  "(string \<Rightarrow> state \<Rightarrow> error + state) \<Rightarrow> string \<Rightarrow> mapping \<Rightarrow> 64 word \<Rightarrow> 64 word \<Rightarrow> 64 word \<Rightarrow>
   state \<Rightarrow> error + (state \<times> bool)" where
  "needed_loop lib_fn exe img strbase size' dbuf st =
     (if size' < sizeof_Dyn then Inr (st, False)
      else
        let (ok, st1) = ptr_ok dbuf 0 (image_end img) ''dbuf'' exe st in
        if \<not> ok then Inr (st1, False)
        else
          (case rd64 img (dbuf + d_tag) of
             Inl e \<Rightarrow> Inl e
           | Inr tag \<Rightarrow>
               if tag = DT_NEEDED then
                 (case rd64 img (dbuf + d_ptr) of
                    Inl e \<Rightarrow> Inl e
                  | Inr v \<Rightarrow>
                      let lib = strbase + v;
                          (ok2, st2) = ptr_ok lib 0 (image_end img) ''lib'' exe st1 in
                      if \<not> ok2 then Inr (st2, True)
                      else
                        (case cstr img lib of
                           Inl e \<Rightarrow> Inl e
                         | Inr s \<Rightarrow>
                             (case lib_fn s st2 of
                                Inl e \<Rightarrow> Inl e
                              | Inr st3 \<Rightarrow>
                                  needed_loop lib_fn exe img strbase (size' - sizeof_Dyn)
                                    (dbuf + sizeof_Dyn) st3)))
               else needed_loop lib_fn exe img strbase (size' - sizeof_Dyn) (dbuf + sizeof_Dyn) st1))"
  by pat_completeness auto
termination
  by (relation "measure (\<lambda>(lib_fn, exe, img, strbase, size', dbuf, st). unat size')")
     (auto simp: sizeof_Dyn_def unat_sub word_le_nat_alt not_less)

text \<open>
  The second section loop. It starts with the count \<open>e_shnum\<close> again, and with
  \<open>sbuf\<close> where the first loop left it. After the loop the source goes to \<open>close\<close>,
  so \<open>goto close\<close> inside it and the end of the loop give the same result.
\<close>

fun dyn_loop ::
  "(string \<Rightarrow> state \<Rightarrow> error + state) \<Rightarrow> string \<Rightarrow> mapping \<Rightarrow> 64 word \<Rightarrow> nat \<Rightarrow> 64 word \<Rightarrow>
   state \<Rightarrow> error + state" where
  "dyn_loop lib_fn exe img strbase 0 sbuf st = Inr st"
| "dyn_loop lib_fn exe img strbase (Suc sections) sbuf st =
     (let (ok, st1) = ptr_ok sbuf 0 (image_end img) ''sbuf'' exe st in
      if \<not> ok then Inr st1
      else
        (case rd32 img (sbuf + sh_type) of
           Inl e \<Rightarrow> Inl e
         | Inr ty \<Rightarrow>
             if ty = SHT_NULL then Inr st1
             else if ty = SHT_DYNAMIC then
               (case rd64 img (sbuf + sh_offset) of
                  Inl e \<Rightarrow> Inl e
                | Inr dbuf \<Rightarrow>
                    let (ok2, st2) = ptr_ok dbuf 0 (image_end img) ''dbuf'' exe st1 in
                    if \<not> ok2 then Inr st2
                    else
                      (case rd64 img (sbuf + sh_size) of
                         Inl e \<Rightarrow> Inl e
                       | Inr size' \<Rightarrow>
                           (case rpath_loop exe img strbase size' dbuf st2 of
                              Inl e \<Rightarrow> Inl e
                            | Inr (st3, True) \<Rightarrow> Inr st3
                            | Inr (st3, False) \<Rightarrow>
                                (case needed_loop lib_fn exe img strbase size' dbuf st3 of
                                   Inl e \<Rightarrow> Inl e
                                 | Inr (st4, True) \<Rightarrow> Inr st4
                                 | Inr (st4, False) \<Rightarrow>
                                     dyn_loop lib_fn exe img strbase sections
                                       (sbuf + sizeof_Shdr) st4))))
             else dyn_loop lib_fn exe img strbase sections (sbuf + sizeof_Shdr) st1))"

subsection \<open>The resolver\<close>

text \<open>
  The loop of \<open>copy_libs_for_lib\<close> over the registry; \<open>exe_fn\<close> stands for
  \<open>copy_libs_for_exe\<close>.
\<close>

fun lib_loop ::
  "(string \<Rightarrow> state \<Rightarrow> error + state) \<Rightarrow> fs \<Rightarrow> string \<Rightarrow> string list \<Rightarrow> state \<Rightarrow> error + state" where
  "lib_loop exe_fn files lib [] st =
     Inr (warn (''Warning fldd: cannot find '' @ lib @ '', skipping...'') st)"
| "lib_loop exe_fn files lib (lib_path # rest) st =
     (let fname = lib_path @ ''/'' @ lib in
      if access_ok files fname then
        (if \<not> storage_find (libs st) fname
         then exe_fn fname (st\<lparr>libs := storage_add (libs st) fname\<rparr>)
         else Inr st)
      else lib_loop exe_fn files lib rest st)"

text \<open>
  The two functions of the source that call each other; \<open>pg\<close> is the page size and
  \<open>fuel\<close> the depth left for the call stack.
\<close>

fun copy_libs_for_exe :: "nat \<Rightarrow> nat \<Rightarrow> fs \<Rightarrow> string \<Rightarrow> state \<Rightarrow> error + state"
  and copy_libs_for_lib :: "nat \<Rightarrow> nat \<Rightarrow> fs \<Rightarrow> string \<Rightarrow> state \<Rightarrow> error + state" where
  "copy_libs_for_exe pg 0 files exe st = Inl OutOfFuel"
| "copy_libs_for_exe pg (Suc fuel) files exe st =
     (case files exe of
        None \<Rightarrow> Inr (warn (''Warning fldd: cannot open '' @ exe @ '', skipping...'') st)
      | Some f \<Rightarrow>
          (case mmap pg f of
             None \<Rightarrow> Inr (perror ''copy libs'' st)
           | Some img \<Rightarrow>
               (case magic_ok img 0 ELFMAG of
                  Inl e \<Rightarrow> Inl e
                | Inr False \<Rightarrow>
                    Inr (warn (''Warning fldd: '' @ exe @ '' is not an ELF executable or library'') st)
                | Inr True \<Rightarrow>
                    (case ph_loop exe img sizeof_Ehdr st of
                       Inl e \<Rightarrow> Inl e
                     | Inr (img1, st1, True) \<Rightarrow> Inr st1
                     | Inr (img1, st1, False) \<Rightarrow>
                         (case rd64 img1 e_shoff of
                            Inl e \<Rightarrow> Inl e
                          | Inr sbuf \<Rightarrow>
                              let (ok, st2) = ptr_ok sbuf 0 (image_end img1) ''sbuf'' exe st1 in
                              if \<not> ok then Inr st2
                              else
                                (case rd16 img1 e_shnum of
                                   Inl e \<Rightarrow> Inl e
                                 | Inr shnum \<Rightarrow>
                                     (case strtab_loop exe img1 (unat shnum) sbuf st2 of
                                        Inl e \<Rightarrow> Inl e
                                      | Inr (Close, st3) \<Rightarrow> Inr st3
                                      | Inr (NotFound, st3) \<Rightarrow> Inr (perror ''copy libs'' st3)
                                      | Inr (Found sbuf' strbase, st3) \<Rightarrow>
                                          dyn_loop (\<lambda>lib st'. copy_libs_for_lib pg fuel files lib st')
                                            exe img1 strbase (unat shnum) sbuf' st3)))))))"
| "copy_libs_for_lib pg fuel files lib st =
     lib_loop (\<lambda>fname st'. copy_libs_for_exe pg fuel files fname st') files lib (lib_paths st) st"

subsection \<open>The default directories\<close>

text \<open>
  \<open>LIBDIR\<close> is a macro of the build (the configured library directory); it is the
  parameter \<open>libdir\<close>.
\<close>

definition default_lib_paths :: "string \<Rightarrow> string list" where
  "default_lib_paths libdir =
     [''/lib'', ''/lib/x86_64-linux-gnu'', ''/lib64'', ''/usr/lib'',
      ''/usr/lib/x86_64-linux-gnu'', libdir, ''/usr/local/lib'']"

fun add_all :: "string list \<Rightarrow> string list \<Rightarrow> string list" where
  "add_all [] head = head"
| "add_all (p # ps) head = add_all ps (storage_add head p)"

definition lib_paths_init :: "string \<Rightarrow> state \<Rightarrow> state" where
  "lib_paths_init libdir st = st\<lparr>lib_paths := add_all (default_lib_paths libdir) (lib_paths st)\<rparr>"

subsection \<open>main\<close>

text \<open>
  The environment of a run: the readable files, the value of \<open>FIREJAIL_QUIET\<close>,
  what \<open>open(argv[2], O_CREAT | O_TRUNC | O_WRONLY, 0644)\<close> returns (a descriptor, or
  -1), and the page size. A successful open leaves an empty file at the path.

  The outcome of a run: how the process ended, the text written per descriptor
  (1 is the standard output), the lines of the diagnostic stream, the path and the
  mode passed to \<open>open\<close>, and the descriptor passed to \<open>close\<close>. \<open>dprintf\<close> on a
  negative descriptor fails and writes nothing, so after a failed \<open>open\<close> no text is
  written at all.
\<close>

record env =
  files :: fs
  FIREJAIL_QUIET :: "string option"
  open_result :: int
  page_size :: nat

datatype status = Exit int | Fault error

record outcome =
  status :: status
  out :: "(int \<times> string) list"
  err :: "string list"
  opened :: "(string \<times> nat) option"
  closed :: "int option"

definition usage :: string where
  "usage = ''Usage: fldd program [file]'' @ [CHR 0x0A] @
           ''print a list of libraries used by program or store it in the file.'' @ [CHR 0x0A]"

definition STDOUT_FILENO :: int where "STDOUT_FILENO = 1"

text \<open>The octal constant \<open>0644\<close> of the source.\<close>

definition mode_0644 :: nat where "mode_0644 = 6 * 8 * 8 + 4 * 8 + 4"

definition main :: "nat \<Rightarrow> string \<Rightarrow> env \<Rightarrow> string list \<Rightarrow> outcome" where
  "main fuel libdir ev argv =
     (let argc = length argv in
      if argc < 2 then
        \<lparr>status = Exit 1, out = [(STDOUT_FILENO, usage)],
         err = [''Error fldd: invalid arguments''], opened = None, closed = None\<rparr>
      else if argv ! 1 = ''--help'' then
        \<lparr>status = Exit 0, out = [(STDOUT_FILENO, usage)], err = [], opened = None, closed = None\<rparr>
      else if \<not> access_ok (files ev) (argv ! 1) then
        \<lparr>status = Exit 1, out = [],
         err = [''Error fldd: cannot access '' @ argv ! 1], opened = None, closed = None\<rparr>
      else
        let quiet = (FIREJAIL_QUIET ev = Some ''yes'') in
        if argv ! 1 = ''-h'' \<or> argv ! 1 = ''--help'' \<or> argv ! 1 = ''-?'' then
          \<lparr>status = Exit 0, out = [(STDOUT_FILENO, usage)], err = [], opened = None, closed = None\<rparr>
        else
          let fd = (if argc = 3 then open_result ev else STDOUT_FILENO);
              op = (if argc = 3 then Some (argv ! 2, mode_0644) else None);
              files' = (if argc = 3 \<and> 0 \<le> fd then (files ev)(argv ! 2 \<mapsto> Regular [])
                        else files ev)
          in
          if argc = 3 \<and> fd = 0 then
            \<lparr>status = Exit 1, out = [(STDOUT_FILENO, usage)],
             err = [''Error fldd: invalid arguments''], opened = op, closed = None\<rparr>
          else
            (case copy_libs_for_exe (page_size ev) fuel files' (argv ! 1)
                    (lib_paths_init libdir
                       \<lparr>libs = [], lib_paths = [], arg_quiet = quiet, stderr = []\<rparr>) of
               Inl e \<Rightarrow>
                 \<lparr>status = Fault e, out = [], err = [], opened = op, closed = None\<rparr>
             | Inr st \<Rightarrow>
                 \<lparr>status = Exit 0,
                  out = (if fd < 0 then [] else [(fd, storage_print (libs st))]),
                  err = stderr st,
                  opened = op, closed = (if argc = 3 then Some fd else None)\<rparr>))"

subsection \<open>Synthetic ELF images\<close>

text \<open>
  Builders for test images: a value in little-endian bytes, the ELF header with its
  section table offset and its two counts, a program header, a section header
  (type, offset, size) and a dynamic entry (tag, value).
\<close>

fun le_bytes :: "nat \<Rightarrow> nat \<Rightarrow> char list" where
  "le_bytes 0 v = []"
| "le_bytes (Suc n) v = char_of (v mod 256) # le_bytes n (v div 256)"

definition zeros :: "nat \<Rightarrow> char list" where
  "zeros n = replicate n (CHR 0x00)"

definition Ehdr :: "nat \<Rightarrow> nat \<Rightarrow> nat \<Rightarrow> image" where
  "Ehdr shoff phnum shnum =
     ELFMAG @ zeros 36 @ le_bytes 8 shoff @ zeros 8 @ le_bytes 2 phnum @ zeros 2 @
     le_bytes 2 shnum @ zeros 2"

definition Phdr :: "nat \<Rightarrow> nat \<Rightarrow> image" where
  "Phdr ty off = le_bytes 4 ty @ zeros 4 @ le_bytes 8 off @ zeros 40"

definition Shdr :: "nat \<Rightarrow> nat \<Rightarrow> nat \<Rightarrow> image" where
  "Shdr ty off sz =
     zeros 4 @ le_bytes 4 ty @ zeros 16 @ le_bytes 8 off @ le_bytes 8 sz @ zeros 24"

definition Dyn :: "nat \<Rightarrow> nat \<Rightarrow> image" where
  "Dyn tag v = le_bytes 8 tag @ le_bytes 8 v"

definition asciz :: "string \<Rightarrow> image" where
  "asciz s = s @ [CHR 0x00]"


text \<open>
  The images, file systems and environments of the examples. Section tables start at
  offset 64; a string table of type 3 and a dynamic section of type 6 follow.
\<close>

definition img_truncated :: image where
  "img_truncated = Ehdr 64 0 1"

text \<open>A file of exactly one page of 4096 bytes, its section table at offset 4096.\<close>

definition img_full_page :: image where
  "img_full_page = Ehdr 4096 0 1 @ replicate 4032 (CHR 0x00)"

definition img_strtab_first :: image where
  "img_strtab_first =
     Ehdr 64 0 2 @ Shdr 3 208 5 @ Shdr 6 192 16 @ Dyn 1 0 @ asciz ''b.so''"

definition img_dynamic_first :: image where
  "img_dynamic_first =
     Ehdr 64 0 2 @ Shdr 6 192 16 @ Shdr 3 208 5 @ Dyn 1 0 @ asciz ''b.so''"

definition img_no_sections :: image where
  "img_no_sections = Ehdr 0 0 0"

definition env_of :: "(string \<times> node) list \<Rightarrow> string option \<Rightarrow> int \<Rightarrow> env" where
  "env_of fl q fd =
     \<lparr>files = map_of fl, FIREJAIL_QUIET = q, open_result = fd, page_size = 4096\<rparr>"

definition st_defaults :: "string \<Rightarrow> state" where
  "st_defaults libdir =
     lib_paths_init libdir \<lparr>libs = [], lib_paths = [], arg_quiet = False, stderr = []\<rparr>"

definition img_rpath :: image where
  "img_rpath =
     Ehdr 64 0 2 @ Shdr 3 224 10 @ Shdr 6 192 32 @ Dyn 15 0 @ Dyn 1 5 @
     asciz ''/opt'' @ asciz ''n.so''"






section \<open>Properties\<close>

subsection \<open>Storage and elementary facts\<close>

text \<open>The equations of the loops are unfolded by hand, one iteration at a time.\<close>

declare ph_loop.simps [simp del]
declare rpath_loop.simps [simp del]
declare needed_loop.simps [simp del]
declare copy_libs_for_lib.simps [simp del]

lemma storage_find_iff: "storage_find ptr name \<longleftrightarrow> name \<in> set ptr"
  by (induction ptr) auto

lemma set_storage_add: "set (storage_add head name) = insert name (set head)"
  by (auto simp: storage_add_def storage_find_iff)

lemma distinct_storage_add: "distinct head \<Longrightarrow> distinct (storage_add head name)"
  by (simp add: storage_add_def storage_find_iff)

lemma libs_warn [simp]: "libs (warn msg st) = libs st"
  by (simp add: warn_def)

lemma libs_perror [simp]: "libs (perror msg st) = libs st"
  by (simp add: perror_def)


lemma rd_bytes_err: "rd_bytes img off n = Inl e \<Longrightarrow> \<exists>a. e = BadAccess a"
  by (auto simp: rd_bytes_def split: if_splits)

lemma rd8_err: "rd8 img off = Inl e \<Longrightarrow> \<exists>a. e = BadAccess a"
  by (auto simp: rd8_def split: if_splits)

lemma rd16_err: "rd16 img off = Inl e \<Longrightarrow> \<exists>a. e = BadAccess a"
  by (cases "rd_bytes img off 2") (auto simp: rd16_def dest: rd_bytes_err)

lemma rd32_err: "rd32 img off = Inl e \<Longrightarrow> \<exists>a. e = BadAccess a"
  by (cases "rd_bytes img off 4") (auto simp: rd32_def dest: rd_bytes_err)

lemma rd64_err: "rd64 img off = Inl e \<Longrightarrow> \<exists>a. e = BadAccess a"
  by (cases "rd_bytes img off 8") (auto simp: rd64_def dest: rd_bytes_err)

lemma cstr_err: "cstr img off = Inl e \<Longrightarrow> \<exists>a. e = BadAccess a"
  by (auto simp: cstr_def split: option.splits)

lemmas rd_errs = rd8_err rd16_err rd32_err rd64_err cstr_err

subsection \<open>What every loop keeps\<close>





lemma SHT_DYNAMIC_neq_NULL [simp]: "SHT_DYNAMIC \<noteq> SHT_NULL"
  by (simp add: SHT_DYNAMIC_def SHT_NULL_def)



subsection \<open>What a whole scan keeps, and the fuel it needs\<close>








subsection \<open>More fuel changes nothing\<close>







subsection \<open>Reads that stay in the mapped pages\<close>





















subsection \<open>Evaluating the examples\<close>

lemma le_bytes_numeral [simp]:
  "le_bytes (numeral k) v = char_of (v mod 256) # le_bytes (pred_numeral k) (v div 256)"
  using le_bytes.simps(2) [of "pred_numeral k" v] by (simp only: numeral_eq_Suc [symmetric])

lemma zeros_numeral [simp]: "zeros (numeral k) = CHR 0x00 # zeros (pred_numeral k)"
  using replicate_Suc [of "pred_numeral k" "CHR 0x00"]
  by (simp only: zeros_def numeral_eq_Suc [symmetric])

lemma zeros_0 [simp]: "zeros 0 = []"
  by (simp add: zeros_def)

lemma zeros_Suc [simp]: "zeros (Suc n) = CHR 0x00 # zeros n"
  by (simp add: zeros_def)

lemmas strtab_loop_numeral =
  strtab_loop.simps(2) [where sections = "pred_numeral k", folded numeral_eq_Suc] for k

lemmas dyn_loop_numeral =
  dyn_loop.simps(2) [where sections = "pred_numeral k", folded numeral_eq_Suc] for k

lemmas copy_libs_for_exe_numeral =
  copy_libs_for_exe.simps(2) [where fuel = "pred_numeral k", folded numeral_eq_Suc] for k

lemmas elf_consts = ELFMAG_def PT_INTERP_def SHT_NULL_def SHT_STRTAB_def SHT_DYNAMIC_def
  DT_NEEDED_def DT_RPATH_def DT_RUNPATH_def sizeof_Ehdr_def sizeof_Phdr_def sizeof_Shdr_def
  sizeof_Dyn_def e_shoff_def e_phnum_def e_shnum_def p_type_def p_offset_def sh_type_def
  sh_offset_def sh_size_def d_tag_def d_ptr_def

lemmas builders = Ehdr_def Phdr_def Shdr_def Dyn_def asciz_def

text \<open>
  The mapping of a file that fits into one page, and the mapping with a page size of 1;
  a number and a string read from the zero bytes of a page.
\<close>

lemma map_pages_one_page:
  "bs \<noteq> [] \<Longrightarrow> length bs \<le> pg \<Longrightarrow>
   map_pages pg bs = \<lparr>pages = bs @ replicate (pg - length bs) (CHR 0x00), st_size = length bs\<rparr>"
  by (cases "length bs = pg") (simp_all add: map_pages_def slack_def)

lemma map_pages_no_slack: "map_pages (Suc 0) bs = \<lparr>pages = bs, st_size = length bs\<rparr>"
  by (simp add: map_pages_def slack_def)

lemma le_val_zeros [simp]: "le_val (replicate n (CHR 0x00)) = 0"
  by (induction n) simp_all

lemma cstr_from_zeros [simp]: "0 < n \<Longrightarrow> cstr_from (replicate n (CHR 0x00)) = Some []"
  by (cases n) simp_all

lemmas mem = rd_bytes_def rd8_def rd16_def rd32_def rd64_def wr16_def cstr_def image_end_def
  char_of_eq_iff map_pages_one_page map_pages_no_slack
  drop_update_swap drop_update_cancel take_update_cancel list_update_beyond

lemmas run_one = strtab_loop_numeral dyn_loop_numeral ph_loop.simps rpath_loop.simps
  needed_loop.simps access_ok_def warn_def perror_def storage_add_def ptr_ok_def Let_def

lemmas run = run_one copy_libs_for_exe_numeral copy_libs_for_lib.simps

lemmas run_main = main_def env_of_def lib_paths_init_def default_lib_paths_def
  STDOUT_FILENO_def mode_0644_def usage_def

subsection \<open>The search of the registry\<close>

lemma lib_loop_first_hit:
  assumes "access_ok fsys (d @ ''/'' @ lib)"
    and "\<forall>p \<in> set pre. \<not> access_ok fsys (p @ ''/'' @ lib)"
  shows "lib_loop exe_fn fsys lib (pre @ d # post) st =
         (if storage_find (libs st) (d @ ''/'' @ lib) then Inr st
          else exe_fn (d @ ''/'' @ lib) (st\<lparr>libs := storage_add (libs st) (d @ ''/'' @ lib)\<rparr>))"
  using assms by (induction pre) (simp_all add: Let_def)


lemma set_add_all: "set (add_all ps head) = set ps \<union> set head"
  by (induction ps arbitrary: head) (auto simp: set_storage_add)

lemma add_all_distinct:
  "distinct ps \<Longrightarrow> set ps \<inter> set head = {} \<Longrightarrow> add_all ps head = rev ps @ head"
  by (induction ps arbitrary: head) (auto simp: storage_add_def storage_find_iff)




subsection \<open>The registry after \<open>lib_paths_init\<close>\<close>

lemma add_all_append: "add_all (xs @ ys) head = add_all ys (add_all xs head)"
  by (induction xs arbitrary: head) simp_all

lemma add_all_extra:
  "\<exists>extra. add_all ps head = extra @ head \<and> set extra = set ps - set head"
proof (induction ps arbitrary: head)
  case Nil
  then show ?case by simp
next
  case (Cons p ps)
  obtain extra where e: "add_all ps (storage_add head p) = extra @ storage_add head p"
      "set extra = set ps - set (storage_add head p)"
    using Cons.IH [of "storage_add head p"] by blast
  show ?case
  proof (cases "storage_find head p")
    case True
    then have "add_all (p # ps) head = extra @ head" "set extra = set (p # ps) - set head"
      using e by (auto simp: storage_add_def storage_find_iff)
    then show ?thesis by blast
  next
    case False
    then have "add_all (p # ps) head = (extra @ [p]) @ head"
      using e by (simp add: storage_add_def)
    moreover have "set (extra @ [p]) = set (p # ps) - set head"
      using e False by (auto simp: storage_add_def storage_find_iff)
    ultimately show ?thesis by blast
  qed
qed

lemma add_all_remdups: "add_all ps head = filter (\<lambda>x. x \<notin> set head) (remdups (rev ps)) @ head"
proof (induction ps arbitrary: head)
  case Nil
  then show ?case by simp
next
  case (Cons p ps)
  have "remdups (xs @ [p]) = filter (\<lambda>x. x \<noteq> p) (remdups xs) @ [p]" for xs
    by (induction xs) auto
  then have r: "remdups (rev ps @ [p]) = filter (\<lambda>x. x \<noteq> p) (remdups (rev ps)) @ [p]" .
  show ?case
  proof (cases "p \<in> set head")
    case True
    then show ?thesis
      using Cons.IH [of head] r
      by (auto simp: storage_add_def storage_find_iff intro!: filter_cong)
  next
    case False
    then show ?thesis
      using Cons.IH [of "p # head"] r
      by (auto simp: storage_add_def storage_find_iff conj_commute intro!: filter_cong)
  qed
qed

lemma hd_last_defaults:
  "hd (add_all (default_lib_paths libdir) []) = ''/usr/local/lib''
   \<and> last (add_all (default_lib_paths libdir) []) = ''/lib''"
  by (simp add: default_lib_paths_def storage_add_def)

subsection \<open>A resolved name is in the Dependency Set\<close>





subsection \<open>The example scans\<close>






section \<open>The claims\<close>

subsection \<open>C1: reads and the mapped region\<close>

text \<open>
  Claim C1 says that no read leaves the mapped region \<open>[base, end]\<close>, every pointer
  being validated first, and that a file whose offsets point beyond it cannot crash the
  process. The code does not keep it: \<open>ptr_ok\<close> accepts every pointer up to
  \<open>end\<close> itself and looks at the first byte only, and the fields of the ELF header
  are read with no check at all. For a file of 64 bytes whose header gives the section
  table the offset 64 and one entry, \<open>ptr_ok\<close> accepts \<open>sbuf = end\<close> and
  \<open>sbuf->sh_type\<close> is read at offset 68: with pages of 4096 bytes the read gets
  zero bytes of the page that are not bytes of the file and the run goes on, and with a
  page size of 1, where the mapping ends with the file, the model stops at that read.
  For a file of exactly 4096 bytes whose section table is at offset 4096, the same read
  is at offset 4100, outside the mapped page, and the process dies. For the file that
  holds the four magic bytes only, \<open>e_phnum\<close> is read at offset 56.
\<close>

theorem C1_read_beyond_end:
  "length img_truncated = 64
   \<and> image_end (map_pages 4096 img_truncated) = 64
   \<and> fst (ptr_ok 64 0 (image_end (map_pages 4096 img_truncated)) ''sbuf'' ''/bin/t'' st)
   \<and> rd32 (map_pages 4096 img_truncated) (64 + sh_type) = Inr 0
   \<and> rd32 (map_pages 1 img_truncated) (64 + sh_type) = Inl (BadAccess 68)
   \<and> main 1 ''/usr/lib64'' (env_of [(''/bin/t'', Regular img_truncated)] None (-1))
         [''fldd'', ''/bin/t'']
       = \<lparr>status = Exit 0, out = [(1, [])], err = [''copy libs''], opened = None, closed = None\<rparr>
   \<and> status (main 1 ''/usr/lib64''
         ((env_of [(''/bin/t'', Regular img_truncated)] None (-1))\<lparr>page_size := 1\<rparr>)
         [''fldd'', ''/bin/t'']) = Fault (BadAccess 68)
   \<and> length img_full_page = 4096
   \<and> fst (ptr_ok 4096 0 (image_end (map_pages 4096 img_full_page)) ''sbuf'' ''/bin/t'' st)
   \<and> status (main 1 ''/usr/lib64'' (env_of [(''/bin/t'', Regular img_full_page)] None (-1))
         [''fldd'', ''/bin/t'']) = Fault (BadAccess 4100)
   \<and> status (main 1 ''/usr/lib64''
         ((env_of [(''/bin/t'', Regular ELFMAG)] None (-1))\<lparr>page_size := 1\<rparr>)
         [''fldd'', ''/bin/t'']) = Fault (BadAccess 56)"
  by (simp add: img_truncated_def img_full_page_def builders elf_consts mem run run_main)

subsection \<open>C2: the second scan of the section headers\<close>

text \<open>
  Claim C2 says that the search for the dynamic section scans the section header
  table again from its start. The code resets the count to \<open>e_shnum\<close> but leaves
  \<open>sbuf\<close> on the string table header: in an image whose table holds the dynamic
  section first and the string table second, the dynamic section is never looked at
  and its NEEDED entry is lost (the two headers that are read next are the string
  table and the 64 bytes after the table, which here read as a null-typed header);
  with the two headers in the other order the library is found.
\<close>

theorem C2_second_scan_starts_at_strtab:
  "rd32 (map_pages 4096 img_dynamic_first) (64 + sh_type) = Inr SHT_DYNAMIC
   \<and> rd32 (map_pages 4096 img_dynamic_first) (128 + sh_type) = Inr SHT_STRTAB
   \<and> main 2 ''/usr/lib64''
         (env_of [(''/bin/p'', Regular img_dynamic_first), (''/lib/b.so'', Regular ''x'')] None (-1))
         [''fldd'', ''/bin/p'']
       = \<lparr>status = Exit 0, out = [(1, [])], err = [], opened = None, closed = None\<rparr>
   \<and> main 2 ''/usr/lib64''
         (env_of [(''/bin/p'', Regular img_strtab_first), (''/lib/b.so'', Regular ''x'')] None (-1))
         [''fldd'', ''/bin/p'']
       = \<lparr>status = Exit 0, out = [(1, ''/lib/b.so'' @ [CHR 0x0A])],
          err = [''Warning fldd: /lib/b.so is not an ELF executable or library''],
          opened = None, closed = None\<rparr>"
  by (simp add: img_dynamic_first_def img_strtab_first_def builders elf_consts mem run run_main)

subsection \<open>C3: termination on cycles\<close>



subsection \<open>C4: the order of the search\<close>

text \<open>
  Claim C4. \<open>copy_libs_for_lib\<close> takes the first directory of the registry, in
  list order, under which the name is readable; a new directory goes to the head of the
  registry. So when a binary has declared a directory \<open>D\<close> that is not a default one
  (the registry held the defaults before), a name readable under \<open>D\<close> and under a
  default directory resolves to the file under \<open>D\<close>.
\<close>

theorem C4_search_priority:
  assumes hit: "access_ok fsys (d @ ''/'' @ lib)"
    and first: "\<forall>p \<in> set pre. \<not> access_ok fsys (p @ ''/'' @ lib)"
    and reg: "lib_paths st = pre @ d # post"
    and new: "D \<notin> set (default_lib_paths libdir)"
    and declared: "lib_paths st' = storage_add (lib_paths (lib_paths_init libdir st0)) D"
      "lib_paths st0 = []"
    and both: "access_ok fsys (D @ ''/'' @ lib)" "dflt \<in> set (default_lib_paths libdir)"
      "access_ok fsys (dflt @ ''/'' @ lib)"
  shows "copy_libs_for_lib pg fuel fsys lib st =
           (if storage_find (libs st) (d @ ''/'' @ lib) then Inr st
            else copy_libs_for_exe pg fuel fsys (d @ ''/'' @ lib)
                   (st\<lparr>libs := storage_add (libs st) (d @ ''/'' @ lib)\<rparr>))
         \<and> hd (lib_paths st') = D
         \<and> copy_libs_for_lib pg fuel fsys lib st' =
           (if storage_find (libs st') (D @ ''/'' @ lib) then Inr st'
            else copy_libs_for_exe pg fuel fsys (D @ ''/'' @ lib)
                   (st'\<lparr>libs := storage_add (libs st') (D @ ''/'' @ lib)\<rparr>))
         \<and> D @ ''/'' @ lib \<noteq> dflt @ ''/'' @ lib"
proof -
  have 1: "copy_libs_for_lib pg fuel fsys lib st =
           (if storage_find (libs st) (d @ ''/'' @ lib) then Inr st
            else copy_libs_for_exe pg fuel fsys (d @ ''/'' @ lib)
                   (st\<lparr>libs := storage_add (libs st) (d @ ''/'' @ lib)\<rparr>))"
    unfolding copy_libs_for_lib.simps reg by (rule lib_loop_first_hit [OF hit first])
  have "D \<notin> set (add_all (default_lib_paths libdir) [])"
    using new by (simp add: set_add_all)
  then have reg': "lib_paths st' = [] @ D # add_all (default_lib_paths libdir) []"
    using declared by (simp add: lib_paths_init_def storage_add_def storage_find_iff)
  have 2: "copy_libs_for_lib pg fuel fsys lib st' =
           (if storage_find (libs st') (D @ ''/'' @ lib) then Inr st'
            else copy_libs_for_exe pg fuel fsys (D @ ''/'' @ lib)
                   (st'\<lparr>libs := storage_add (libs st') (D @ ''/'' @ lib)\<rparr>))"
    unfolding copy_libs_for_lib.simps reg' by (rule lib_loop_first_hit [OF both(1)]) simp
  have 3: "D @ ''/'' @ lib \<noteq> dflt @ ''/'' @ lib"
    using new both(2) by auto
  show ?thesis using 1 2 3 reg' by simp
qed

text \<open>
  The witness: a program with the RPATH \<open>/opt\<close> and the NEEDED name \<open>n.so\<close>,
  readable under \<open>/opt\<close> and under \<open>/lib\<close>.
\<close>

theorem C4_search_priority_witness:
  "access_ok (map_of [(''/opt/n.so'', Regular ''x''), (''/lib/n.so'', Regular ''y'')]) (''/opt'' @ ''/'' @ ''n.so'')
   \<and> access_ok (map_of [(''/opt/n.so'', Regular ''x''), (''/lib/n.so'', Regular ''y'')]) (''/lib'' @ ''/'' @ ''n.so'')
   \<and> ''/opt'' \<notin> set (default_lib_paths ''/usr/lib64'')
   \<and> ''/lib'' \<in> set (default_lib_paths ''/usr/lib64'')
   \<and> copy_libs_for_lib 4096 1 (map_of [(''/opt/n.so'', Regular ''x''), (''/lib/n.so'', Regular ''y'')]) ''n.so''
         ((st_defaults ''/usr/lib64'')\<lparr>lib_paths := storage_add (lib_paths (st_defaults ''/usr/lib64'')) ''/opt''\<rparr>)
       = Inr ((st_defaults ''/usr/lib64'')
               \<lparr>lib_paths := ''/opt'' # lib_paths (st_defaults ''/usr/lib64''),
                libs := [''/opt/n.so''],
                stderr := [''Warning fldd: /opt/n.so is not an ELF executable or library'']\<rparr>)
   \<and> out (main 2 ''/usr/lib64''
         (env_of [(''/bin/p'', Regular img_rpath), (''/opt/n.so'', Regular ''x''),
                  (''/lib/n.so'', Regular ''y'')] None (-1))
         [''fldd'', ''/bin/p'']) = [(1, ''/opt/n.so'' @ [CHR 0x0A])]"
  using C4_search_priority [of "map_of [(''/opt/n.so'', Regular ''x''), (''/lib/n.so'', Regular ''y'')]"
      "''/opt''" "''n.so''" "[]"
      "(st_defaults ''/usr/lib64'')\<lparr>lib_paths := storage_add (lib_paths (st_defaults ''/usr/lib64'')) ''/opt''\<rparr>"
      "lib_paths (st_defaults ''/usr/lib64'')" "''/opt''" "''/usr/lib64''"
      "(st_defaults ''/usr/lib64'')\<lparr>lib_paths := storage_add (lib_paths (st_defaults ''/usr/lib64'')) ''/opt''\<rparr>"
      "\<lparr>libs = [], lib_paths = [], arg_quiet = False, stderr = []\<rparr>" "''/lib''" 4096 1]
  by (simp add: st_defaults_def img_rpath_def builders elf_consts mem run run_main)

subsection \<open>C5: the emitted result\<close>



subsection \<open>C6, C7, C8: main\<close>

text \<open>
  Claim C6 says that \<open>-h\<close> and \<open>-?\<close> print the usage message and exit with 0
  whether or not a file of that name exists. The code tests them only after
  \<open>access(argv[1], R_OK)\<close>: with no such file the run ends with status 1 and an
  error message, and no usage. Only \<open>--help\<close> is tested before.
\<close>

theorem C6_short_help_needs_a_file:
  "main fuel libdir (env_of [] None (-1)) [''fldd'', ''-h'']
     = \<lparr>status = Exit 1, out = [], err = [''Error fldd: cannot access -h''],
        opened = None, closed = None\<rparr>
   \<and> main fuel libdir (env_of [] None (-1)) [''fldd'', ''-?'']
     = \<lparr>status = Exit 1, out = [], err = [''Error fldd: cannot access -?''],
        opened = None, closed = None\<rparr>
   \<and> main fuel libdir (env_of [] None (-1)) [''fldd'', ''--help'']
     = \<lparr>status = Exit 0, out = [(1, usage)], err = [], opened = None, closed = None\<rparr>
   \<and> main fuel libdir (env_of [(''-h'', Regular ''x'')] None (-1)) [''fldd'', ''-h'']
     = \<lparr>status = Exit 0, out = [(1, usage)], err = [], opened = None, closed = None\<rparr>"
  by (simp add: main_def env_of_def access_ok_def STDOUT_FILENO_def)

text \<open>
  Claim C7 says that a failed open of the output file ends the run with the usage
  message and status 1. The code tests \<open>!fd\<close>, and a failed open returns -1: the
  run goes on, \<open>dprintf\<close> on the descriptor -1 writes nothing, \<open>close(-1)\<close> is
  called, and the run exits with 0 without the usage message. The branch is taken when
  open returns the descriptor 0, which is a successful open. With any other descriptor
  the result is written to the file opened with mode 0644, and the file is closed.
\<close>

theorem C7_failed_open_is_not_detected:
  "main 1 ''/usr/lib64'' (env_of [(''/bin/p'', Regular ''x'')] None (-1))
       [''fldd'', ''/bin/p'', ''/nodir/out'']
     = \<lparr>status = Exit 0, out = [],
        err = [''Warning fldd: /bin/p is not an ELF executable or library''],
        opened = Some (''/nodir/out'', 420), closed = Some (-1)\<rparr>
   \<and> main 1 ''/usr/lib64'' (env_of [(''/bin/p'', Regular ''x'')] None 0)
       [''fldd'', ''/bin/p'', ''/tmp/out'']
     = \<lparr>status = Exit 1, out = [(1, usage)], err = [''Error fldd: invalid arguments''],
        opened = Some (''/tmp/out'', 420), closed = None\<rparr>
   \<and> main 1 ''/usr/lib64'' (env_of [(''/bin/p'', Regular ''x'')] None 3)
       [''fldd'', ''/bin/p'', ''/tmp/out'']
     = \<lparr>status = Exit 0, out = [(3, [])],
        err = [''Warning fldd: /bin/p is not an ELF executable or library''],
        opened = Some (''/tmp/out'', 420), closed = Some 3\<rparr>"
  by (simp add: elf_consts mem run run_main)

text \<open>
  Claim C8 says that in quiet mode no recoverable failure writes a diagnostic. The
  code guards its warnings with \<open>arg_quiet\<close> but not \<open>perror("copy libs")\<close>: an
  image with no string table, an empty file and a directory (which cannot be mapped)
  each leave a line on the diagnostic stream in quiet mode.
\<close>

theorem C8_perror_ignores_quiet:
  "err (main 1 ''/usr/lib64'' (env_of [(''/bin/p'', Regular img_no_sections)] (Some ''yes'') (-1))
         [''fldd'', ''/bin/p'']) = [''copy libs'']
   \<and> err (main 1 ''/usr/lib64'' (env_of [(''/bin/p'', Regular [])] (Some ''yes'') (-1))
         [''fldd'', ''/bin/p'']) = [''copy libs'']
   \<and> err (main 1 ''/usr/lib64'' (env_of [(''/bin/p'', Directory)] (Some ''yes'') (-1))
         [''fldd'', ''/bin/p'']) = [''copy libs'']
   \<and> err (main 1 ''/usr/lib64'' (env_of [(''/bin/p'', Regular ''x'')] (Some ''yes'') (-1))
         [''fldd'', ''/bin/p'']) = []"
  by (simp add: img_no_sections_def builders elf_consts mem run run_main)

subsection \<open>C9: idempotent insertion\<close>

lemma distinct_foldl_storage_add:
  "distinct head \<Longrightarrow> distinct (foldl storage_add head names)"
  by (induction names arbitrary: head) (simp_all add: distinct_storage_add)

text \<open>
  Claim C9. Adding a name that is already in a list (the Search-Path Registry or the
  Dependency Set) leaves the list as it is: the result is the list with the name added
  once, every entry stays where it was, and a list built by any sequence of adds holds
  no entry twice. A new name goes to the head.
\<close>

theorem C9_storage_add_idempotent:
  "(storage_find head name \<longleftrightarrow> name \<in> set head)
   \<and> (name \<in> set head \<longrightarrow> storage_add head name = head)
   \<and> (name \<notin> set head \<longrightarrow> storage_add head name = name # head)
   \<and> storage_add (storage_add head name) name = storage_add head name
   \<and> (distinct head \<longrightarrow> distinct (storage_add head name))
   \<and> distinct (foldl storage_add [] names)"
  using distinct_foldl_storage_add [of "[]" names]
  by (simp add: storage_add_def storage_find_iff)

theorem C9_storage_add_idempotent_witness:
  "''/lib'' \<in> set [''/opt'', ''/lib'']
   \<and> storage_add [''/opt'', ''/lib''] ''/lib'' = [''/opt'', ''/lib'']
   \<and> ''/usr'' \<notin> set [''/opt'', ''/lib'']
   \<and> storage_add [''/opt'', ''/lib''] ''/usr'' = [''/usr'', ''/opt'', ''/lib'']
   \<and> distinct [''/opt'', ''/lib'']
   \<and> distinct (storage_add [''/opt'', ''/lib''] ''/lib'')
   \<and> foldl storage_add [] [''/lib'', ''/opt'', ''/lib''] = [''/opt'', ''/lib'']"
  using C9_storage_add_idempotent [of "[''/opt'', ''/lib'']" "''/lib''" "[''/lib'', ''/opt'', ''/lib'']"]
    C9_storage_add_idempotent [of "[''/opt'', ''/lib'']" "''/usr''" "[]"]
  by (simp add: storage_add_def)

subsection \<open>C10: the order of the default directories\<close>

text \<open>
  Claim C10 says that a name readable under several default directories resolves to
  the file of the directory listed last in the array. That fails when \<open>LIBDIR\<close> is
  one of the six literal directories, as it is for a build configured with the prefix
  \<open>/usr\<close>: \<open>storage_add\<close> ignores the second listing of \<open>/usr/lib\<close>, the
  registry has six entries and is not the array reversed, and a name readable under
  \<open>/usr/lib\<close> (listed fourth and sixth) and under \<open>/usr/lib/x86_64-linux-gnu\<close>
  (listed fifth) resolves to the latter.
\<close>

theorem C10_counterexample:
  "default_lib_paths ''/usr/lib'' ! 4 = ''/usr/lib/x86_64-linux-gnu''
   \<and> default_lib_paths ''/usr/lib'' ! 5 = ''/usr/lib''
   \<and> default_lib_paths ''/usr/lib'' ! 6 = ''/usr/local/lib''
   \<and> length (default_lib_paths ''/usr/lib'') = 7
   \<and> access_ok (map_of [(''/usr/lib/n.so'', Regular ''x''),
                          (''/usr/lib/x86_64-linux-gnu/n.so'', Regular ''y'')])
        (default_lib_paths ''/usr/lib'' ! 4 @ ''/'' @ ''n.so'')
   \<and> access_ok (map_of [(''/usr/lib/n.so'', Regular ''x''),
                          (''/usr/lib/x86_64-linux-gnu/n.so'', Regular ''y'')])
        (default_lib_paths ''/usr/lib'' ! 5 @ ''/'' @ ''n.so'')
   \<and> \<not> access_ok (map_of [(''/usr/lib/n.so'', Regular ''x''),
                          (''/usr/lib/x86_64-linux-gnu/n.so'', Regular ''y'')])
        (default_lib_paths ''/usr/lib'' ! 6 @ ''/'' @ ''n.so'')
   \<and> lib_paths (st_defaults ''/usr/lib'') =
       [''/usr/local/lib'', ''/usr/lib/x86_64-linux-gnu'', ''/usr/lib'', ''/lib64'',
        ''/lib/x86_64-linux-gnu'', ''/lib'']
   \<and> lib_paths (st_defaults ''/usr/lib'') \<noteq> rev (default_lib_paths ''/usr/lib'')
   \<and> copy_libs_for_lib 4096 1
         (map_of [(''/usr/lib/n.so'', Regular ''x''),
                  (''/usr/lib/x86_64-linux-gnu/n.so'', Regular ''y'')]) ''n.so''
         (st_defaults ''/usr/lib'')
       = Inr ((st_defaults ''/usr/lib'')
               \<lparr>libs := [''/usr/lib/x86_64-linux-gnu/n.so''],
                stderr := [''Warning fldd: /usr/lib/x86_64-linux-gnu/n.so is not an ELF executable or library'']\<rparr>)
   \<and> ''/usr/lib/x86_64-linux-gnu/n.so'' \<noteq> default_lib_paths ''/usr/lib'' ! 5 @ ''/'' @ ''n.so''"
  by (simp add: st_defaults_def elf_consts mem run run_main)

text \<open>
  Claim C10, amended. The registry after \<open>lib_paths_init\<close> is the array reversed,
  with a directory that is listed twice at the place of its first listing; it is the
  array reversed when no directory is listed twice. A name readable under several
  default directories resolves to the file of the one whose first listing comes last
  among those of the directories that hold the name, not to an earlier one. Whatever
  \<open>LIBDIR\<close> is, \<open>/usr/local/lib\<close> is searched first and \<open>/lib\<close> last.
\<close>

theorem C10_defaults_searched_in_reverse:
  assumes reg: "lib_paths st = lib_paths (lib_paths_init libdir st0)" "lib_paths st0 = []"
    and ij: "i < j" "j < length (default_lib_paths libdir)"
    and hit_i: "access_ok fsys (default_lib_paths libdir ! i @ ''/'' @ lib)"
    and hit_j: "access_ok fsys (default_lib_paths libdir ! j @ ''/'' @ lib)"
    and first: "default_lib_paths libdir ! j \<notin> set (take j (default_lib_paths libdir))"
    and later: "\<forall>k. j < k \<and> k < length (default_lib_paths libdir)
                  \<and> default_lib_paths libdir ! k \<notin> set (take k (default_lib_paths libdir)) \<longrightarrow>
                 \<not> access_ok fsys (default_lib_paths libdir ! k @ ''/'' @ lib)"
  shows "lib_paths st = remdups (rev (default_lib_paths libdir))
         \<and> (distinct (default_lib_paths libdir) \<longrightarrow> lib_paths st = rev (default_lib_paths libdir))
         \<and> copy_libs_for_lib pg fuel fsys lib st =
           (if storage_find (libs st) (default_lib_paths libdir ! j @ ''/'' @ lib) then Inr st
            else copy_libs_for_exe pg fuel fsys (default_lib_paths libdir ! j @ ''/'' @ lib)
                   (st\<lparr>libs := storage_add (libs st) (default_lib_paths libdir ! j @ ''/'' @ lib)\<rparr>))
         \<and> default_lib_paths libdir ! j @ ''/'' @ lib \<noteq> default_lib_paths libdir ! i @ ''/'' @ lib
         \<and> hd (lib_paths (st_defaults dir)) = ''/usr/local/lib''
         \<and> last (lib_paths (st_defaults dir)) = ''/lib''"
proof -
  let ?ds = "default_lib_paths libdir"
  have r: "lib_paths st = add_all ?ds []"
    using reg by (simp add: lib_paths_init_def)
  have split: "?ds = take j ?ds @ ?ds ! j # drop (Suc j) ?ds"
    using ij(2) by (rule id_take_nth_drop)
  obtain h1 where h1: "add_all (take j ?ds) [] = h1 @ []" "set h1 = set (take j ?ds) - set []"
    using add_all_extra [of "take j ?ds" "[]"] by blast
  have new: "\<not> storage_find h1 (?ds ! j)"
    using h1(2) first by (auto simp: storage_find_iff)
  obtain extra where extra: "add_all (drop (Suc j) ?ds) (?ds ! j # h1) = extra @ ?ds ! j # h1"
      "set extra = set (drop (Suc j) ?ds) - set (?ds ! j # h1)"
    using add_all_extra [of "drop (Suc j) ?ds" "?ds ! j # h1"] by blast
  have "add_all ?ds [] = add_all (drop (Suc j) ?ds) (storage_add (add_all (take j ?ds) []) (?ds ! j))"
    by (subst split) (simp add: add_all_append)
  then have r': "lib_paths st = extra @ ?ds ! j # h1"
    using r h1(1) new extra(1) by (simp add: storage_add_def)
  have none: "\<forall>p \<in> set extra. \<not> access_ok fsys (p @ ''/'' @ lib)"
  proof
    fix p assume p: "p \<in> set extra"
    then have "p \<in> set ?ds" using extra(2) by (auto dest: in_set_dropD)
    then have ex: "\<exists>k. k < length ?ds \<and> ?ds ! k = p" by (auto simp: in_set_conv_nth)
    define k where "k = (LEAST k. k < length ?ds \<and> ?ds ! k = p)"
    have k: "k < length ?ds" "?ds ! k = p"
      using LeastI_ex [OF ex] by (simp_all add: k_def)
    have least: "\<And>m. m < length ?ds \<Longrightarrow> ?ds ! m = p \<Longrightarrow> k \<le> m"
      unfolding k_def by (rule Least_le) simp
    have notin: "p \<notin> set (take (Suc j) ?ds)"
      using p extra(2) h1(2) ij(2) by (auto simp: take_Suc_conv_app_nth)
    have "j < k"
    proof (rule ccontr)
      assume "\<not> j < k"
      then have "?ds ! k \<in> set (take (Suc j) ?ds)"
        using k(1) ij(2) by (auto simp: in_set_conv_nth intro!: exI [of _ k])
      then show False using notin k(2) by simp
    qed
    moreover have "?ds ! k \<notin> set (take k ?ds)"
    proof
      assume "?ds ! k \<in> set (take k ?ds)"
      then obtain m where "m < k" "?ds ! m = ?ds ! k"
        using k(1) by (auto simp: in_set_conv_nth)
      then show False using least [of m] k by simp
    qed
    ultimately show "\<not> access_ok fsys (p @ ''/'' @ lib)"
      using later k by blast
  qed
  have 1: "copy_libs_for_lib pg fuel fsys lib st =
           (if storage_find (libs st) (?ds ! j @ ''/'' @ lib) then Inr st
            else copy_libs_for_exe pg fuel fsys (?ds ! j @ ''/'' @ lib)
                   (st\<lparr>libs := storage_add (libs st) (?ds ! j @ ''/'' @ lib)\<rparr>))"
    unfolding copy_libs_for_lib.simps r' by (rule lib_loop_first_hit [OF hit_j none])
  have "?ds ! i \<in> set (take j ?ds)"
    using ij by (auto simp: in_set_conv_nth intro!: exI [of _ i])
  then have "?ds ! i \<noteq> ?ds ! j" using first by auto
  then have 2: "?ds ! j @ ''/'' @ lib \<noteq> ?ds ! i @ ''/'' @ lib" by auto
  have 3: "lib_paths st = remdups (rev ?ds)"
    using r by (simp add: add_all_remdups)
  have 4: "distinct ?ds \<longrightarrow> lib_paths st = rev ?ds"
    using r by (simp add: add_all_distinct)
  have 5: "hd (lib_paths (st_defaults dir)) = ''/usr/local/lib''"
    "last (lib_paths (st_defaults dir)) = ''/lib''"
    using hd_last_defaults [of dir] by (simp_all add: st_defaults_def lib_paths_init_def)
  show ?thesis using 1 2 3 4 5 by - (intro conjI; assumption)
qed

text \<open>
  The witness: a name readable under \<open>/lib\<close> and under \<open>/usr/local/lib\<close>, and
  the name of the counterexample with \<open>LIBDIR = /usr/lib\<close>.
\<close>

theorem C10_defaults_searched_in_reverse_witness:
  "(0::nat) < 6 \<and> 6 < length (default_lib_paths ''/usr/lib64'')
   \<and> default_lib_paths ''/usr/lib64'' ! 0 = ''/lib''
   \<and> default_lib_paths ''/usr/lib64'' ! 6 = ''/usr/local/lib''
   \<and> lib_paths (st_defaults ''/usr/lib64'') =
       [''/usr/local/lib'', ''/usr/lib64'', ''/usr/lib/x86_64-linux-gnu'', ''/usr/lib'', ''/lib64'',
        ''/lib/x86_64-linux-gnu'', ''/lib'']
   \<and> copy_libs_for_lib 4096 1
         (map_of [(''/lib/n.so'', Regular ''x''), (''/usr/local/lib/n.so'', Regular ''y'')]) ''n.so''
         (st_defaults ''/usr/lib64'')
       = Inr ((st_defaults ''/usr/lib64'')
               \<lparr>libs := [''/usr/local/lib/n.so''],
                stderr := [''Warning fldd: /usr/local/lib/n.so is not an ELF executable or library'']\<rparr>)
   \<and> (3::nat) < 4 \<and> 4 < length (default_lib_paths ''/usr/lib'')
   \<and> default_lib_paths ''/usr/lib'' ! 4 \<notin> set (take 4 (default_lib_paths ''/usr/lib''))
   \<and> default_lib_paths ''/usr/lib'' ! 5 \<in> set (take 5 (default_lib_paths ''/usr/lib''))
   \<and> lib_paths (st_defaults ''/usr/lib'') = remdups (rev (default_lib_paths ''/usr/lib''))
   \<and> copy_libs_for_lib 4096 1
         (map_of [(''/usr/lib/n.so'', Regular ''x''),
                  (''/usr/lib/x86_64-linux-gnu/n.so'', Regular ''y'')]) ''n.so''
         (st_defaults ''/usr/lib'')
       = Inr ((st_defaults ''/usr/lib'')
               \<lparr>libs := [''/usr/lib/x86_64-linux-gnu/n.so''],
                stderr := [''Warning fldd: /usr/lib/x86_64-linux-gnu/n.so is not an ELF executable or library'']\<rparr>)"
proof -
  have later1: "\<forall>k. 6 < k \<and> k < length (default_lib_paths ''/usr/lib64'')
        \<and> default_lib_paths ''/usr/lib64'' ! k \<notin> set (take k (default_lib_paths ''/usr/lib64'')) \<longrightarrow>
       \<not> access_ok (map_of [(''/lib/n.so'', Regular ''x''), (''/usr/local/lib/n.so'', Regular ''y'')])
            (default_lib_paths ''/usr/lib64'' ! k @ ''/'' @ ''n.so'')"
  proof (intro allI impI)
    fix k :: nat
    assume "6 < k \<and> k < length (default_lib_paths ''/usr/lib64'')
        \<and> default_lib_paths ''/usr/lib64'' ! k \<notin> set (take k (default_lib_paths ''/usr/lib64''))"
    then have "6 < k" "k < 7" by (simp_all add: default_lib_paths_def)
    then show "\<not> access_ok (map_of [(''/lib/n.so'', Regular ''x''), (''/usr/local/lib/n.so'', Regular ''y'')])
            (default_lib_paths ''/usr/lib64'' ! k @ ''/'' @ ''n.so'')"
      by simp
  qed
  have later2: "\<forall>k. 4 < k \<and> k < length (default_lib_paths ''/usr/lib'')
        \<and> default_lib_paths ''/usr/lib'' ! k \<notin> set (take k (default_lib_paths ''/usr/lib'')) \<longrightarrow>
       \<not> access_ok (map_of [(''/usr/lib/n.so'', Regular ''x''),
                  (''/usr/lib/x86_64-linux-gnu/n.so'', Regular ''y'')])
            (default_lib_paths ''/usr/lib'' ! k @ ''/'' @ ''n.so'')"
  proof (intro allI impI)
    fix k :: nat
    assume "4 < k \<and> k < length (default_lib_paths ''/usr/lib'')
        \<and> default_lib_paths ''/usr/lib'' ! k \<notin> set (take k (default_lib_paths ''/usr/lib''))"
    then have "k = 5 \<or> k = 6" "default_lib_paths ''/usr/lib'' ! k \<notin> set (take k (default_lib_paths ''/usr/lib''))"
      by (auto simp: default_lib_paths_def)
    then show "\<not> access_ok (map_of [(''/usr/lib/n.so'', Regular ''x''),
                  (''/usr/lib/x86_64-linux-gnu/n.so'', Regular ''y'')])
            (default_lib_paths ''/usr/lib'' ! k @ ''/'' @ ''n.so'')"
      by (auto simp: default_lib_paths_def access_ok_def)
  qed
  show ?thesis
    using C10_defaults_searched_in_reverse [of "st_defaults ''/usr/lib64''" "''/usr/lib64''"
      "\<lparr>libs = [], lib_paths = [], arg_quiet = False, stderr = []\<rparr>" 0 6
      "map_of [(''/lib/n.so'', Regular ''x''), (''/usr/local/lib/n.so'', Regular ''y'')]" "''n.so''"
      4096 1 "''/usr/lib64''", OF _ _ _ _ _ _ _ later1]
      C10_defaults_searched_in_reverse [of "st_defaults ''/usr/lib''" "''/usr/lib''"
      "\<lparr>libs = [], lib_paths = [], arg_quiet = False, stderr = []\<rparr>" 3 4
      "map_of [(''/usr/lib/n.so'', Regular ''x''),
                  (''/usr/lib/x86_64-linux-gnu/n.so'', Regular ''y'')]" "''n.so''"
      4096 1 "''/usr/lib''", OF _ _ _ _ _ _ _ later2]
    by (simp add: st_defaults_def elf_consts mem run run_main)
qed

end
